theory Spec2Isabelle
  imports Complex_Main
begin

section \<open>River levels from the SEPA time-series service (get_level.py)\<close>

text \<open>
  A shallow embedding of \<^verbatim>\<open>src/river/get_level.py\<close>: the response decoder
  \<^verbatim>\<open>_first_hit\<close> and the entry point \<^verbatim>\<open>get_river_level\<close>.
  The network is a function from a URL to the outcome of one GET, every function returns
  the list of exchanges it made next to its result, and every exception of the source is
  a value of \<open>py_error\<close>.

  Strings are HOL strings whose characters stand for the code points below 256.
\<close>

subsection \<open>Python values\<close>

text \<open>
  What \<^verbatim>\<open>r.json()\<close> returns: None, a bool, an int, a float (a finite one, as a
  rational), a str, a list or a dict (its items in insertion order, keys distinct).
\<close>

datatype json =
    JNull
  | JBool bool
  | JInt int
  | JFloat rat
  | JStr string
  | JArr "json list"
  | JObj "(string \<times> json) list"

text \<open>
  The exceptions the program meets. \<open>RequestException\<close>, \<open>HTTPError\<close> and
  \<open>JSONDecodeError\<close> come from the requests library, \<open>PandasError\<close> from pandas;
  the others are Python's builtin classes, with the message or the key they carry.
\<close>

datatype py_error =
    ValueError string
  | TypeError
  | AttributeError
  | KeyError string
  | LookupError string
  | RequestException string
  | HTTPError nat
  | JSONDecodeError
  | PandasError string

text \<open>
  \<^verbatim>\<open>except LookupError\<close> catches the class and its subclasses; KeyError is one
  of them, the exceptions of requests are not.
\<close>

fun is_LookupError :: "py_error \<Rightarrow> bool" where
  "is_LookupError (LookupError m) = True"
| "is_LookupError (KeyError k) = True"
| "is_LookupError e = False"

text \<open>Truth value of an object (\<^verbatim>\<open>not data\<close>).\<close>

fun truthy :: "json \<Rightarrow> bool" where
  "truthy JNull = False"
| "truthy (JBool b) = b"
| "truthy (JInt i) = (i \<noteq> 0)"
| "truthy (JFloat r) = (r \<noteq> 0)"
| "truthy (JStr s) = (s \<noteq> [])"
| "truthy (JArr xs) = (xs \<noteq> [])"
| "truthy (JObj kvs) = (kvs \<noteq> [])"

fun is_list :: "json \<Rightarrow> bool" where
  "is_list (JArr xs) = True"
| "is_list v = False"

fun is_dict :: "json \<Rightarrow> bool" where
  "is_dict (JObj kvs) = True"
| "is_dict v = False"

text \<open>The elements of a list and the items of a dict (empty for any other value).\<close>

fun list_items :: "json \<Rightarrow> json list" where
  "list_items (JArr xs) = xs"
| "list_items v = []"

fun dict_items :: "json \<Rightarrow> (string \<times> json) list" where
  "dict_items (JObj kvs) = kvs"
| "dict_items v = []"

text \<open>
  What iterating over a value yields: the elements of a list, the characters of a str,
  the keys of a dict; None, bools and numbers are not iterable and have no \<^verbatim>\<open>len\<close>.
\<close>

fun elements :: "json \<Rightarrow> json list option" where
  "elements (JArr xs) = Some xs"
| "elements (JStr s) = Some (map (\<lambda>c. JStr [c]) s)"
| "elements (JObj kvs) = Some (map (\<lambda>kv. JStr (fst kv)) kvs)"
| "elements v = None"

definition py_len :: "json \<Rightarrow> py_error + nat" where
  "py_len v = (case elements v of None \<Rightarrow> Inl TypeError | Some xs \<Rightarrow> Inr (length xs))"

text \<open>
  Dictionary keys. Lists and dicts are unhashable; \<^verbatim>\<open>True\<close>, \<^verbatim>\<open>1\<close> and
  \<^verbatim>\<open>1.0\<close> are one and the same key.
\<close>

datatype key = KNone | KNum rat | KStr string

fun hash_key :: "json \<Rightarrow> key option" where
  "hash_key JNull = Some KNone"
| "hash_key (JBool b) = Some (KNum (if b then 1 else 0))"
| "hash_key (JInt i) = Some (KNum (of_int i))"
| "hash_key (JFloat r) = Some (KNum r)"
| "hash_key (JStr s) = Some (KStr s)"
| "hash_key (JArr xs) = None"
| "hash_key (JObj kvs) = None"

type_synonym py_dict = "key \<rightharpoonup> json"

text \<open>
  \<^verbatim>\<open>dict(pairs)\<close>: the pairs are stored from left to right, a later pair replaces
  an earlier one with the same key, and an unhashable key raises TypeError.
\<close>

fun dict_of :: "(json \<times> json) list \<Rightarrow> py_dict \<Rightarrow> py_error + py_dict" where
  "dict_of [] m = Inr m"
| "dict_of (kv # kvs) m =
     (case hash_key (fst kv) of
        None \<Rightarrow> Inl TypeError
      | Some k \<Rightarrow> dict_of kvs (m(k \<mapsto> snd kv)))"

subsection \<open>Strings: strip, split, quote_plus, isoformat\<close>

text \<open>\<^verbatim>\<open>str.isspace\<close> on the code points below 256.\<close>

definition is_space :: "char \<Rightarrow> bool" where
  "is_space c = ((of_char c :: nat) \<in> {9, 10, 11, 12, 13, 28, 29, 30, 31, 32, 133, 160})"

definition strip :: "string \<Rightarrow> string" where
  "strip s = rev (dropWhile is_space (rev (dropWhile is_space s)))"

text \<open>\<^verbatim>\<open>s.split(sep)\<close> for a separator of one character: never the empty list.\<close>

fun split_on :: "char \<Rightarrow> string \<Rightarrow> string list" where
  "split_on sep [] = [[]]"
| "split_on sep (c # cs) =
     (if c = sep then [] # split_on sep cs
      else (case split_on sep cs of
              [] \<Rightarrow> [[c]]
            | w # ws \<Rightarrow> (c # w) # ws))"

definition hex_digit :: "nat \<Rightarrow> char" where
  "hex_digit n = ''0123456789ABCDEF'' ! (n mod 16)"

definition percent :: "nat \<Rightarrow> string" where
  "percent b = [CHR ''%'', hex_digit (b div 16), hex_digit b]"

definition unreserved :: "nat \<Rightarrow> bool" where
  "unreserved n =
     ((48 \<le> n \<and> n \<le> 57) \<or> (65 \<le> n \<and> n \<le> 90) \<or> (97 \<le> n \<and> n \<le> 122)
      \<or> n = 45 \<or> n = 46 \<or> n = 95 \<or> n = 126)"

text \<open>
  \<^verbatim>\<open>urllib.parse.quote_plus\<close>: letters, digits and \<^verbatim>\<open>_.-~\<close> stay, a space
  becomes a plus sign, every other character is percent-encoded byte by byte in UTF-8
  (two bytes from code point 128 on).
\<close>

definition quote_char :: "char \<Rightarrow> string" where
  "quote_char c =
     (let n = (of_char c :: nat) in
      if unreserved n then [c]
      else if n = 32 then ''+''
      else if n < 128 then percent n
      else percent (192 + n div 64) @ percent (128 + n mod 64))"

definition quote_plus :: "string \<Rightarrow> string" where
  "quote_plus s = concat (map quote_char s)"

definition digit_char :: "nat \<Rightarrow> char" where
  "digit_char n = ''0123456789'' ! (n mod 10)"

text \<open>
  \<^verbatim>\<open>date.isoformat()\<close>, YYYY-MM-DD: a date object has a year from 1 to 9999, a month
  from 1 to 12 and a day from 1 to 31, so that four and two digits are always enough.
\<close>

definition isoformat :: "nat \<Rightarrow> nat \<Rightarrow> nat \<Rightarrow> string" where
  "isoformat y m d =
     [digit_char (y div 1000), digit_char (y div 100), digit_char (y div 10), digit_char y]
     @ ''-'' @ [digit_char (m div 10), digit_char m]
     @ ''-'' @ [digit_char (d div 10), digit_char d]"

subsection \<open>The network\<close>

text \<open>
  The outcome of one GET followed by \<^verbatim>\<open>raise_for_status()\<close> and \<^verbatim>\<open>json()\<close>:
  the request itself fails (connection, timeout), or the status is one for which
  \<^verbatim>\<open>raise_for_status\<close> raises, or the body is not JSON, or the body decodes.
\<close>

datatype http_result =
    TransportFailure string
  | BadStatus nat
  | InvalidJson
  | Json json

text \<open>A request goes through the requests module or through the caller's session.\<close>

datatype channel = Requests | Session

record exchange =
  via :: channel
  url :: string
  timeout :: nat
  reply :: http_result

type_synonym network = "string \<Rightarrow> http_result"

fun receive :: "http_result \<Rightarrow> py_error + json" where
  "receive (TransportFailure d) = Inl (RequestException d)"
| "receive (BadStatus c) = Inl (HTTPError c)"
| "receive InvalidJson = Inl JSONDecodeError"
| "receive (Json v) = Inr v"

subsection \<open>The response decoder\<close>

text \<open>
  \<^verbatim>\<open>_first_hit(url)\<close>, lines 12 to 44: one GET through the requests module with a
  timeout of 30, then the checks on the decoded body. The conditions of the first
  \<^verbatim>\<open>if\<close> are evaluated from left to right, so \<^verbatim>\<open>len(data)\<close> and
  \<^verbatim>\<open>data[0]\<close> are only reached for a non-empty list.
\<close>

definition decode_first_hit :: "json \<Rightarrow> py_error + py_dict" where
  "decode_first_hit data =
     (if \<not> truthy data \<or> \<not> is_list data \<or> length (list_items data) < 2
         \<or> \<not> is_list (list_items data ! 0)
      then Inl (LookupError ''No matching records returned by SEPA.'')
      else
        (let header = list_items data ! 0; first_row = list_items data ! 1 in
         case py_len first_row of
           Inl e \<Rightarrow> Inl e
         | Inr n \<Rightarrow>
             if n \<noteq> length (list_items header)
             then Inl (LookupError ''Malformed response from SEPA (row/header mismatch).'')
             else dict_of (zip (list_items header) (the (elements first_row))) Map.empty))"

definition exchange_of :: "channel \<Rightarrow> network \<Rightarrow> string \<Rightarrow> nat \<Rightarrow> exchange" where
  "exchange_of c n u t = \<lparr>via = c, url = u, timeout = t, reply = n u\<rparr>"

definition first_hit :: "network \<Rightarrow> string \<Rightarrow> (py_error + py_dict) \<times> exchange list" where
  "first_hit net u =
     (let x = exchange_of Requests net u 30 in
      case receive (reply x) of
        Inl e \<Rightarrow> (Inl e, [x])
      | Inr data \<Rightarrow> (decode_first_hit data, [x]))"

subsection \<open>The table\<close>

text \<open>
  The libraries the program calls but does not contain, where their behaviour is not
  written out below:
  \<^item> \<open>str_of\<close>: Python's \<^verbatim>\<open>str()\<close> on a value that is not a str;
  \<^item> \<open>frame_other\<close>: the rows of \<^verbatim>\<open>pd.DataFrame(data, columns=cols)\<close>, or its
    exception, when \<^verbatim>\<open>data\<close> is not a list of lists;
  \<^item> \<open>to_datetime\<close>: \<^verbatim>\<open>pd.to_datetime(column, utc=True)\<close> on one column, giving
    for each entry its instant in nanoseconds since the epoch (\<open>None\<close> is NaT), or
    its exception.
\<close>

record externals =
  str_of :: "json \<Rightarrow> string"
  frame_other :: "json \<Rightarrow> string list \<Rightarrow> string + json list list"
  to_datetime :: "json list \<Rightarrow> string + int option list"

text \<open>A DataFrame after \<^verbatim>\<open>set_index\<close>: the index, the other columns, the rows.\<close>

record table =
  tbl_index :: "int option list"
  tbl_columns :: "string list"
  tbl_rows :: "json list list"

definition pad_row :: "nat \<Rightarrow> json list \<Rightarrow> json list" where
  "pad_row w r = r @ replicate (w - length r) JNull"

text \<open>
  \<^verbatim>\<open>pd.DataFrame(data, columns=cols)\<close> on a list of lists: no rows for the empty
  list; otherwise the rows are filled up to the longest one, and their width must be
  the number of column names.
\<close>

definition DataFrame :: "externals \<Rightarrow> json \<Rightarrow> string list \<Rightarrow> py_error + json list list" where
  "DataFrame L d cols =
     (if is_list d \<and> list_all is_list (list_items d)
      then
        (let rs = map list_items (list_items d) in
         if rs = [] then Inr []
         else
           (let w = fold max (map length rs) 0 in
            if w \<noteq> length cols
            then Inl (PandasError ''ValueError: columns passed do not match the data'')
            else Inr (map (pad_row w) rs)))
      else
        (case frame_other L d cols of
           Inl e \<Rightarrow> Inl (PandasError e)
         | Inr rs \<Rightarrow> Inr rs))"

definition cell :: "nat \<Rightarrow> json list \<Rightarrow> json" where
  "cell p r = (if p < length r then r ! p else JNull)"

definition drop_at :: "nat \<Rightarrow> 'a list \<Rightarrow> 'a list" where
  "drop_at p xs = take p xs @ drop (Suc p) xs"

fun position :: "string \<Rightarrow> string list \<Rightarrow> nat" where
  "position c [] = 0"
| "position c (x # xs) = (if x = c then 0 else Suc (position c xs))"

text \<open>
  Lines 134 and 135: \<^verbatim>\<open>df["Timestamp"]\<close> raises KeyError without such a column,
  \<^verbatim>\<open>pd.to_datetime\<close> refuses a frame of several columns of that name, and
  \<^verbatim>\<open>set_index\<close> moves the converted column into the index.
\<close>

definition index_by_timestamp ::
  "externals \<Rightarrow> string list \<Rightarrow> json list list \<Rightarrow> py_error + table" where
  "index_by_timestamp L cols rs =
     (if count_list cols ''Timestamp'' = 0 then Inl (KeyError ''Timestamp'')
      else if 1 < count_list cols ''Timestamp''
      then Inl (PandasError ''ValueError: cannot assemble with duplicate keys'')
      else
        (let p = position ''Timestamp'' cols in
         case to_datetime L (map (cell p) rs) of
           Inl e \<Rightarrow> Inl (PandasError e)
         | Inr idx \<Rightarrow>
             Inr \<lparr>tbl_index = idx, tbl_columns = drop_at p cols,
                  tbl_rows = map (drop_at p) rs\<rparr>))"

subsection \<open>get_river_level\<close>

datatype date_arg =
    DateStr string
  | Date nat nat nat
  | DateTime nat nat nat nat nat nat

definition API_ROOT :: string where
  "API_ROOT = ''https://timeseries.sepa.org.uk/KiWIS/KiWIS''"

definition DEFAULT_RETURN_FIELDS :: string where
  "DEFAULT_RETURN_FIELDS = ''Timestamp,Value,Quality Code''"

definition base_query :: string where
  "base_query =
     API_ROOT @ ''?service=kisters&type=queryServices&datasource=0''
     @ ''&request=getStationList&object_type=General&format=json''
     @ ''&returnfields=station_no,station_name,river_name''"

definition qry_station_name :: "string \<Rightarrow> string" where
  "qry_station_name name = base_query @ ''&station_name='' @ quote_plus name"

definition qry_river_name :: "string \<Rightarrow> string" where
  "qry_river_name name = base_query @ ''&river_name='' @ quote_plus name"

text \<open>Lines 90 to 95: the station record, by station name and then by river name.\<close>

definition find_station :: "network \<Rightarrow> string \<Rightarrow> (py_error + py_dict) \<times> exchange list" where
  "find_station net name =
     (case first_hit net (qry_station_name name) of
        (Inr station, trace) \<Rightarrow> (Inr station, trace)
      | (Inl e, trace) \<Rightarrow>
          if is_LookupError e
          then (case first_hit net (qry_river_name name) of
                  (r, trace') \<Rightarrow> (r, trace @ trace'))
          else (Inl e, trace))"

text \<open>An f-string field: a str as it is, any other value through \<^verbatim>\<open>str()\<close>.\<close>

definition format_field :: "externals \<Rightarrow> json \<Rightarrow> string" where
  "format_field L v = (case v of JStr s \<Rightarrow> s | _ \<Rightarrow> str_of L v)"

definition ts_path :: "externals \<Rightarrow> json \<Rightarrow> string \<Rightarrow> string \<Rightarrow> string" where
  "ts_path L sta_no parameter resolution =
     ''1/'' @ format_field L sta_no @ ''/'' @ parameter @ ''/'' @ resolution"

definition qry_values :: "string \<Rightarrow> string \<Rightarrow> string" where
  "qry_values path date =
     API_ROOT @ ''?service=kisters&type=queryServices&datasource=0''
     @ ''&request=getTimeseriesValues&ts_path='' @ quote_plus path
     @ ''&from='' @ date @ ''&to='' @ date @ ''T23:59:59''
     @ ''&returnfields='' @ quote_plus DEFAULT_RETURN_FIELDS @ ''&format=json''"

definition malformed_values :: "string \<Rightarrow> string \<Rightarrow> string" where
  "malformed_values name date =
     ''Malformed response fetching values for '' @ name @ '' on '' @ date @ ''.''"

definition no_level_values :: "string \<Rightarrow> string \<Rightarrow> string" where
  "no_level_values name date =
     ''No level values found for '' @ name @ '' on '' @ date @ ''.''"

text \<open>
  Lines 119 to 136, from the decoded body of the values request to the table.
  \<^verbatim>\<open>df.empty\<close> holds when the frame has no row or no column.
\<close>

definition values_table :: "externals \<Rightarrow> string \<Rightarrow> string \<Rightarrow> json \<Rightarrow> py_error + table" where
  "values_table L name date raw =
     (if \<not> truthy raw \<or> \<not> is_list raw \<or> \<not> is_dict (list_items raw ! 0)
         \<or> map_of (dict_items (list_items raw ! 0)) ''data'' = None
      then Inl (LookupError (malformed_values name date))
      else
        (let rec = map_of (dict_items (list_items raw ! 0)) in
         case rec ''columns'' of
           None \<Rightarrow> Inl (KeyError ''columns'')
         | Some (JStr s) \<Rightarrow>
             (let cols = map strip (split_on CHR '','' s) in
              case DataFrame L (the (rec ''data'')) cols of
                Inl e \<Rightarrow> Inl e
              | Inr rs \<Rightarrow>
                  if rs = [] \<or> cols = []
                  then Inl (LookupError (no_level_values name date))
                  else index_by_timestamp L cols rs)
         | Some other \<Rightarrow> Inl AttributeError))"

text \<open>
  Lines 77 to 80: a date object is replaced by its ISO text; \<^verbatim>\<open>"T" in date\<close> then
  raises TypeError on a datetime object, which is not iterable.
\<close>

definition date_text :: "date_arg \<Rightarrow> py_error + string" where
  "date_text date =
     (case (case date of Date y m d \<Rightarrow> DateStr (isoformat y m d) | other \<Rightarrow> other) of
        DateStr s \<Rightarrow>
          if CHR ''T'' \<in> set s
          then Inl (ValueError ''Pass a *date* (YYYY-MM-DD), not a full timestamp.'')
          else Inr s
      | other \<Rightarrow> Inl TypeError)"

text \<open>\<^verbatim>\<open>sess = session or requests\<close>: a session object is always true.\<close>

definition sess_channel :: "network option \<Rightarrow> channel" where
  "sess_channel session = (case session of None \<Rightarrow> Requests | Some s \<Rightarrow> Session)"

definition sess_network :: "network \<Rightarrow> network option \<Rightarrow> network" where
  "sess_network net session = (case session of None \<Rightarrow> net | Some s \<Rightarrow> s)"

text \<open>
  The entry point. \<open>net\<close> is the requests module, \<open>session\<close> the optional session;
  \<^verbatim>\<open>_first_hit\<close> always goes through the module, the values request through
  \<^verbatim>\<open>sess\<close> with a timeout of 60.
\<close>

definition get_river_level ::
  "externals \<Rightarrow> network \<Rightarrow> network option \<Rightarrow> string \<Rightarrow> date_arg \<Rightarrow> string \<Rightarrow> string
     \<Rightarrow> (py_error + table) \<times> exchange list" where
  "get_river_level L net session name date parameter resolution =
     (case date_text date of
        Inl e \<Rightarrow> (Inl e, [])
      | Inr d \<Rightarrow>
          (case find_station net name of
             (Inl e, trace) \<Rightarrow> (Inl e, trace)
           | (Inr station, trace) \<Rightarrow>
               (case station (KStr ''station_no'') of
                  None \<Rightarrow> (Inl (KeyError ''station_no''), trace)
                | Some sta_no \<Rightarrow>
                    (let u = qry_values (ts_path L sta_no parameter resolution) d;
                         x = exchange_of (sess_channel session) (sess_network net session) u 60
                     in
                     case receive (reply x) of
                       Inl e \<Rightarrow> (Inl e, trace @ [x])
                     | Inr raw \<Rightarrow> (values_table L name d raw, trace @ [x])))))"

subsection \<open>A reference instance of the libraries\<close>

text \<open>
  Concrete inputs need a concrete \<open>to_datetime\<close>. This one reads the timestamps the
  service sends in the shape \<^verbatim>\<open>YYYY-MM-DDTHH:MM:SSZ\<close>, where it agrees with pandas,
  and refuses every other entry.
\<close>

definition digit_value :: "char \<Rightarrow> nat option" where
  "digit_value c =
     (let n = (of_char c :: nat) in if 48 \<le> n \<and> n \<le> 57 then Some (n - 48) else None)"

fun number :: "string \<Rightarrow> nat \<Rightarrow> nat option" where
  "number [] acc = Some acc"
| "number (c # cs) acc =
     (case digit_value c of None \<Rightarrow> None | Some v \<Rightarrow> number cs (10 * acc + v))"

definition leap_year :: "nat \<Rightarrow> bool" where
  "leap_year y = (y mod 4 = 0 \<and> (y mod 100 \<noteq> 0 \<or> y mod 400 = 0))"

definition days_in_month :: "nat \<Rightarrow> nat \<Rightarrow> nat" where
  "days_in_month y m =
     (if m = 2 then (if leap_year y then 29 else 28)
      else if m = 4 \<or> m = 6 \<or> m = 9 \<or> m = 11 then 30 else 31)"

text \<open>Days from 1970-01-01 to a day of the proleptic Gregorian calendar.\<close>

definition days_from_civil :: "int \<Rightarrow> int \<Rightarrow> int \<Rightarrow> int" where
  "days_from_civil y m d =
     (let y' = (if m \<le> 2 then y - 1 else y);
          era = y' div 400;
          yoe = y' - era * 400;
          doy = (153 * (if 2 < m then m - 3 else m + 9) + 2) div 5 + d - 1;
          doe = yoe * 365 + yoe div 4 - yoe div 100 + doy
      in era * 146097 + doe - 719468)"

definition iso_instant :: "string \<Rightarrow> int option" where
  "iso_instant s =
     (if length s = 20 \<and> s ! 4 = CHR ''-'' \<and> s ! 7 = CHR ''-'' \<and> s ! 10 = CHR ''T''
         \<and> s ! 13 = CHR '':'' \<and> s ! 16 = CHR '':'' \<and> s ! 19 = CHR ''Z''
      then
        (case (number (take 4 s) 0, number (take 2 (drop 5 s)) 0,
               number (take 2 (drop 8 s)) 0, number (take 2 (drop 11 s)) 0,
               number (take 2 (drop 14 s)) 0, number (take 2 (drop 17 s)) 0) of
           (Some y, Some m, Some d, Some h, Some mi, Some sec) \<Rightarrow>
             if 1 \<le> y \<and> 1 \<le> m \<and> m \<le> 12 \<and> 1 \<le> d \<and> d \<le> days_in_month y m
                \<and> h < 24 \<and> mi < 60 \<and> sec < 60
             then Some (((days_from_civil (int y) (int m) (int d) * 24 + int h) * 60
                          + int mi) * 60 + int sec)
             else None
         | other \<Rightarrow> None)
      else None)"

fun iso_entry :: "json \<Rightarrow> int option" where
  "iso_entry (JStr s) = map_option (\<lambda>t. t * 1000000000) (iso_instant s)"
| "iso_entry v = None"

definition iso_column :: "json list \<Rightarrow> string + int option list" where
  "iso_column xs =
     (if list_all (\<lambda>x. iso_entry x \<noteq> None) xs then Inr (map iso_entry xs)
      else Inl ''ValueError: time data does not match the format'')"

definition reference_externals :: externals where
  "reference_externals =
     \<lparr>str_of = (\<lambda>v. []),
      frame_other = (\<lambda>d cols. Inl ''ValueError: DataFrame constructor not properly called!''),
      to_datetime = iso_column\<rparr>"





subsection \<open>Example replies of the service\<close>

definition station_header :: json where
  "station_header = JArr [JStr ''station_no'', JStr ''station_name'', JStr ''river_name'']"

definition station_reply :: json where
  "station_reply =
     JArr [station_header, JArr [JStr ''15018'', JStr ''Pitnacree'', JStr ''River Tay'']]"

definition no_hit_reply :: json where
  "no_hit_reply = JArr [station_header]"

definition short_row_reply :: json where
  "short_row_reply = JArr [station_header, JArr [JStr ''15018'', JStr ''Pitnacree'']]"

definition scalar_row_reply :: json where
  "scalar_row_reply = JArr [JArr [JStr ''station_no''], JInt 15018]"

definition values_reply :: json where
  "values_reply =
     JArr [JObj [(''columns'', JStr ''Timestamp,Value,Quality Code''),
                 (''data'', JArr [JArr [JStr ''2024-01-01T00:00:00Z'', JFloat (5 / 4), JInt 200],
                                  JArr [JStr ''2024-01-01T00:15:00Z'', JFloat (3 / 2), JInt 200]])]]"


definition empty_values_reply :: json where
  "empty_values_reply =
     JArr [JObj [(''columns'', JStr ''Timestamp,Value,Quality Code''), (''data'', JArr [])]]"

definition no_columns_reply :: json where
  "no_columns_reply = JArr [JObj [(''data'', JArr [])]]"

definition no_data_reply :: json where
  "no_data_reply = JArr [JObj [(''columns'', JStr ''Timestamp,Value,Quality Code'')]]"

text \<open>
  A network that answers the station-name query, the river-name query and every other
  request for the name Pitnacree with the three given outcomes.
\<close>

definition example_net :: "http_result \<Rightarrow> http_result \<Rightarrow> http_result \<Rightarrow> network" where
  "example_net by_station by_river otherwise =
     (\<lambda>u. if u = qry_station_name ''Pitnacree'' then by_station
          else if u = qry_river_name ''Pitnacree'' then by_river
          else otherwise)"

definition example_station :: py_dict where
  "example_station =
     Map.empty(KStr ''station_no'' \<mapsto> JStr ''15018'',
               KStr ''station_name'' \<mapsto> JStr ''Pitnacree'',
               KStr ''river_name'' \<mapsto> JStr ''River Tay'')"

definition example_values_url :: string where
  "example_values_url =
     qry_values (ts_path reference_externals (JStr ''15018'') ''SG'' ''15m.Cmd'') ''2024-01-01''"

section \<open>Properties\<close>

lemma first_hit_eq:
  "first_hit net u =
     (case receive (net u) of Inl e \<Rightarrow> Inl e | Inr data \<Rightarrow> decode_first_hit data,
      [exchange_of Requests net u 30])"
  by (simp add: first_hit_def exchange_of_def Let_def split: sum.splits)

lemma receive_not_lookup: "receive r = Inl e \<Longrightarrow> \<not> is_LookupError e"
  by (cases r) auto

lemma dict_of_error: "dict_of kvs m = Inl e \<Longrightarrow> e = TypeError"
  by (induction kvs arbitrary: m) (auto split: option.splits)

lemma dict_of_hashable:
  "list_all (\<lambda>kv. hash_key (fst kv) \<noteq> None) kvs \<Longrightarrow>
   dict_of kvs m = Inr (m ++ map_of (rev (map (\<lambda>kv. (the (hash_key (fst kv)), snd kv)) kvs)))"
proof (induction kvs arbitrary: m)
  case Nil
  then show ?case by simp
next
  case (Cons kv kvs)
  then obtain k where k: "hash_key (fst kv) = Some k" by auto
  from Cons have "dict_of kvs (m(k \<mapsto> snd kv))
      = Inr (m(k \<mapsto> snd kv) ++ map_of (rev (map (\<lambda>kv. (the (hash_key (fst kv)), snd kv)) kvs)))"
    by simp
  then show ?case using k by (simp add: map_add_upd_left)
qed

lemma decode_first_hit_error:
  "decode_first_hit data = Inl e \<Longrightarrow>
     e = LookupError ''No matching records returned by SEPA.''
   \<or> e = LookupError ''Malformed response from SEPA (row/header mismatch).''
   \<or> e = TypeError"
  by (auto simp: decode_first_hit_def py_len_def Let_def dest: dict_of_error
           split: if_splits option.splits sum.splits)

lemma decode_no_match:
  "(decode_first_hit data = Inl (LookupError ''No matching records returned by SEPA.''))
   = (\<not> truthy data \<or> \<not> is_list data \<or> length (list_items data) < 2
         \<or> \<not> is_list (list_items data ! 0))"
  by (auto simp: decode_first_hit_def py_len_def Let_def dest: dict_of_error
           split: if_splits option.splits sum.splits)

lemma decode_mismatch:
  "elements row = Some xs \<Longrightarrow> length xs \<noteq> length header \<Longrightarrow>
   decode_first_hit (JArr (JArr header # row # rest))
     = Inl (LookupError ''Malformed response from SEPA (row/header mismatch).'')"
  by (simp add: decode_first_hit_def py_len_def Let_def)

lemma decode_record:
  assumes "length xs = length header" and "list_all (\<lambda>h. hash_key h \<noteq> None) header"
  shows "decode_first_hit (JArr (JArr header # JArr xs # rest))
     = Inr (map_of (rev (zip (map (\<lambda>h. the (hash_key h)) header) xs)))"
proof -
  have "list_all (\<lambda>kv. hash_key (fst kv) \<noteq> None) (zip header xs)"
    using assms(2) by (auto simp: list_all_iff dest: set_zip_leftD)
  then have "dict_of (zip header xs) Map.empty
     = Inr (Map.empty ++ map_of (rev (map (\<lambda>kv. (the (hash_key (fst kv)), snd kv)) (zip header xs))))"
    by (rule dict_of_hashable)
  moreover have "map (\<lambda>kv. (the (hash_key (fst kv)), snd kv)) (zip header xs)
      = zip (map (\<lambda>h. the (hash_key h)) header) xs"
    by (simp add: zip_map1 case_prod_unfold)
  ultimately show ?thesis
    using assms(1) by (simp add: decode_first_hit_def py_len_def Let_def)
qed

text \<open>
  Claim C1. A \<^verbatim>\<open>date\<close> given as a string that contains the separator T is refused with
  the ValueError of line 80, and no request has been made: the list of exchanges is empty.
\<close>

theorem timestamp_string_rejected:
  "CHR ''T'' \<in> set s \<Longrightarrow>
   get_river_level L net session name (DateStr s) parameter resolution
     = (Inl (ValueError ''Pass a *date* (YYYY-MM-DD), not a full timestamp.''), [])"
  by (simp add: get_river_level_def date_text_def)

theorem timestamp_string_rejected_witness:
  "CHR ''T'' \<in> set ''2024-01-01T00:00:00''
   \<and> get_river_level reference_externals (\<lambda>u. InvalidJson) None ''Pitnacree''
        (DateStr ''2024-01-01T00:00:00'') ''SG'' ''15m.Cmd''
     = (Inl (ValueError ''Pass a *date* (YYYY-MM-DD), not a full timestamp.''), [])"
  using timestamp_string_rejected [of "''2024-01-01T00:00:00''" reference_externals
          "\<lambda>u. InvalidJson" None "''Pitnacree''" "''SG''" "''15m.Cmd''"]
  by simp

text \<open>
  Claim C8. A \<^verbatim>\<open>datetime.datetime\<close> object is not replaced by its ISO text, the
  membership test of line 79 raises TypeError instead of the documented ValueError, and
  no request has been made.
\<close>

theorem datetime_object_TypeError:
  "get_river_level L net session name (DateTime y m d h mi s) parameter resolution
     = (Inl TypeError, [])"
  by (simp add: get_river_level_def date_text_def)

theorem datetime_object_TypeError_witness:
  "get_river_level reference_externals (\<lambda>u. InvalidJson) None ''Pitnacree''
     (DateTime 2024 1 1 0 0 0) ''SG'' ''15m.Cmd'' = (Inl TypeError, [])"
  using datetime_object_TypeError [of reference_externals "\<lambda>u. InvalidJson" None
          "''Pitnacree''" 2024 1 1 0 0 0 "''SG''" "''15m.Cmd''"]
  by simp

text \<open>
  Claim C5, as amended. For every decoded body: \<^verbatim>\<open>_first_hit\<close> fails with "no matching
  records" exactly when the body is empty, is not a list, has fewer than two elements
  or does not start with a list; it fails with "malformed response" when the first data
  row has a length and that length differs from the header's; and when the first data
  row is a list as long as the header and every header field is hashable, it returns
  the mapping from each header field to the value below it in the first data row,
  whatever the later rows are (a field that occurs twice keeps its last value).
\<close>

theorem first_hit_decoding:
  assumes "net u = Json data"
  shows "((fst (first_hit net u) = Inl (LookupError ''No matching records returned by SEPA.''))
          = (\<not> truthy data \<or> \<not> is_list data \<or> length (list_items data) < 2
             \<or> \<not> is_list (list_items data ! 0)))
       \<and> (\<forall>header row rest xs.
            data = JArr (JArr header # row # rest) \<and> elements row = Some xs
              \<and> length xs \<noteq> length header
            \<longrightarrow> fst (first_hit net u)
                  = Inl (LookupError ''Malformed response from SEPA (row/header mismatch).''))
       \<and> (\<forall>header xs rest.
            data = JArr (JArr header # JArr xs # rest) \<and> length xs = length header
              \<and> list_all (\<lambda>h. hash_key h \<noteq> None) header
            \<longrightarrow> fst (first_hit net u)
                  = Inr (map_of (rev (zip (map (\<lambda>h. the (hash_key h)) header) xs))))"
  using assms
  by (simp add: first_hit_eq decode_no_match decode_mismatch decode_record)


lemma find_station_eq:
  "find_station net name =
     (case fst (first_hit net (qry_station_name name)) of
        Inr station \<Rightarrow> (Inr station, [exchange_of Requests net (qry_station_name name) 30])
      | Inl e \<Rightarrow>
          if is_LookupError e
          then (fst (first_hit net (qry_river_name name)),
                [exchange_of Requests net (qry_station_name name) 30,
                 exchange_of Requests net (qry_river_name name) 30])
          else (Inl e, [exchange_of Requests net (qry_station_name name) 30]))"
  by (simp add: find_station_def first_hit_eq split: sum.splits)

lemma first_hit_lookup_reply:
  "fst (first_hit net u) = Inl e \<Longrightarrow> is_LookupError e \<Longrightarrow> \<exists>data. net u = Json data"
  by (cases "net u") (auto simp: first_hit_eq)

lemma first_hit_ok_reply:
  "fst (first_hit net u) = Inr st \<Longrightarrow> \<exists>data. net u = Json data"
  by (cases "net u") (auto simp: first_hit_eq)

lemma first_hit_failure:
  "receive (net u) = Inl e \<Longrightarrow> fst (first_hit net u) = Inl e"
  by (simp add: first_hit_eq)

lemma find_station_failure:
  assumes "find_station net name = (r, tr)" and "i < length tr"
      and "receive (reply (tr ! i)) = Inl e"
  shows "Suc i = length tr \<and> r = Inl e"
proof (cases "fst (first_hit net (qry_station_name name))")
  case (Inr st)
  then obtain data where "net (qry_station_name name) = Json data"
    using first_hit_ok_reply by blast
  with Inr assms show ?thesis
    by (auto simp: find_station_eq exchange_of_def)
next
  case (Inl e1)
  show ?thesis
  proof (cases "is_LookupError e1")
    case False
    with Inl assms show ?thesis
      by (auto simp: find_station_eq exchange_of_def first_hit_eq split: sum.splits)
  next
    case True
    then obtain data where d: "net (qry_station_name name) = Json data"
      using Inl first_hit_lookup_reply by blast
    from True Inl assms(1) have tr: "tr = [exchange_of Requests net (qry_station_name name) 30,
                 exchange_of Requests net (qry_river_name name) 30]"
      and r: "r = fst (first_hit net (qry_river_name name))"
      by (auto simp: find_station_eq)
    from assms(2) tr have "i = 0 \<or> i = 1" by auto
    then show ?thesis
    proof
      assume "i = 0"
      with assms(3) tr d show ?thesis by (simp add: exchange_of_def)
    next
      assume "i = 1"
      with assms(3) tr have "receive (net (qry_river_name name)) = Inl e"
        by (simp add: exchange_of_def)
      then show ?thesis using r tr \<open>i = 1\<close> by (simp add: first_hit_failure)
    qed
  qed
qed

lemma find_station_ok_replies:
  assumes "find_station net name = (Inr st, tr)" and "i < length tr"
  shows "\<exists>data. reply (tr ! i) = Json data"
proof (cases "receive (reply (tr ! i))")
  case (Inl e)
  then have "Inr st = (Inl e :: py_error + py_dict)"
    using find_station_failure [of net name "Inr st" tr i e] assms by simp
  then show ?thesis by simp
next
  case (Inr v)
  then show ?thesis by (cases "reply (tr ! i)") auto
qed

lemma get_river_level_fetch:
  assumes "date_text date = Inr d" and "find_station net name = (Inr st, tr)"
      and "st (KStr ''station_no'') = Some sta_no"
  shows "get_river_level L net session name date parameter resolution =
     (case receive (sess_network net session (qry_values (ts_path L sta_no parameter resolution) d)) of
        Inl e \<Rightarrow> Inl e
      | Inr raw \<Rightarrow> values_table L name d raw,
      tr @ [exchange_of (sess_channel session) (sess_network net session)
              (qry_values (ts_path L sta_no parameter resolution) d) 60])"
  using assms
  by (simp add: get_river_level_def exchange_of_def Let_def split: sum.splits)

lemma get_river_level_trace_failure:
  assumes "get_river_level L net session name date parameter resolution = (res, tr)"
      and "i < length tr" and "receive (reply (tr ! i)) = Inl e"
  shows "Suc i = length tr \<and> res = Inl e"
proof (cases "date_text date")
  case (Inl e0)
  with assms show ?thesis by (simp add: get_river_level_def)
next
  case (Inr d)
  obtain r tr0 where fs: "find_station net name = (r, tr0)" by (cases "find_station net name")
  show ?thesis
  proof (cases r)
    case (Inl e1)
    with Inr fs assms(1) have "tr = tr0" "res = Inl e1"
      by (auto simp: get_river_level_def)
    then show ?thesis
      using find_station_failure [of net name r tr0 i e] fs assms(2,3) Inl by simp
  next
    case st: (Inr st)
    show ?thesis
    proof (cases "st (KStr ''station_no'')")
      case None
      with st Inr fs assms(1) have "tr = tr0" "res = Inl (KeyError ''station_no'')"
        by (auto simp: get_river_level_def)
      moreover have "\<exists>data. reply (tr ! i) = Json data"
        using find_station_ok_replies [of net name st tr0 i] fs st \<open>tr = tr0\<close> assms(2) by simp
      ultimately show ?thesis using assms(3) by auto
    next
      case (Some sta_no)
      let ?x = "exchange_of (sess_channel session) (sess_network net session)
              (qry_values (ts_path L sta_no parameter resolution) d) 60"
      from get_river_level_fetch [OF Inr fs [unfolded st] Some, of L session parameter resolution] assms(1)
      have tr: "tr = tr0 @ [?x]"
        and res: "res = (case receive (reply ?x) of Inl e \<Rightarrow> Inl e | Inr raw \<Rightarrow> values_table L name d raw)"
        by (simp_all add: exchange_of_def)
      show ?thesis
      proof (cases "i < length tr0")
        case True
        then have "\<exists>data. reply (tr0 ! i) = Json data"
          using find_station_ok_replies [of net name st tr0 i] fs st by simp
        with True tr assms(3) show ?thesis by (auto simp: nth_append)
      next
        case False
        with assms(2) tr have i: "i = length tr0" by simp
        with tr assms(3) have "receive (reply ?x) = Inl e" by simp
        with res tr i show ?thesis by simp
      qed
    qed
  qed
qed

lemma example_urls:
  "qry_river_name ''Pitnacree'' \<noteq> qry_station_name ''Pitnacree''"
  "example_values_url \<noteq> qry_station_name ''Pitnacree''"
  "example_values_url \<noteq> qry_river_name ''Pitnacree''"
  by (simp_all add: example_values_url_def qry_values_def qry_river_name_def qry_station_name_def base_query_def API_ROOT_def)

lemma example_net_simps:
  "example_net a b c (qry_station_name ''Pitnacree'') = a"
  "example_net a b c (qry_river_name ''Pitnacree'') = b"
  "example_net a b c example_values_url = c"
  by (simp_all add: example_net_def example_urls)

lemma decode_station_reply: "decode_first_hit station_reply = Inr example_station"
  by (simp add: decode_first_hit_def station_reply_def station_header_def py_len_def example_station_def)


lemma decode_short_row_reply:
  "decode_first_hit short_row_reply = Inl (LookupError ''Malformed response from SEPA (row/header mismatch).'')"
  by (simp add: decode_first_hit_def short_row_reply_def station_header_def py_len_def)

lemma date_text_example: "date_text (DateStr ''2024-01-01'') = Inr ''2024-01-01''"
  by (simp add: date_text_def)

lemma date_text_example2: "date_text (Date 2024 1 1) = Inr ''2024-01-01''"
  by (simp add: date_text_def isoformat_def digit_char_def)



text \<open>
  Claim C5, as stated, fails on a body whose first data row has no length: the header
  check passes, \<^verbatim>\<open>len(first_row)\<close> raises TypeError, and the result is neither of the
  two lookup failures nor a mapping.
\<close>

theorem first_hit_scalar_row_counterexample:
  "fst (first_hit (example_net (Json scalar_row_reply) InvalidJson InvalidJson)
          (qry_station_name ''Pitnacree'')) = Inl TypeError"
  by (simp add: first_hit_eq example_net_simps scalar_row_reply_def decode_first_hit_def
        py_len_def)

theorem first_hit_decoding_witness:
  "fst (first_hit (example_net (Json station_reply) InvalidJson InvalidJson)
          (qry_station_name ''Pitnacree''))
     = Inr (map_of [(KStr ''river_name'', JStr ''River Tay''),
                     (KStr ''station_name'', JStr ''Pitnacree''),
                     (KStr ''station_no'', JStr ''15018'')])
   \<and> fst (first_hit (example_net (Json short_row_reply) InvalidJson InvalidJson)
          (qry_station_name ''Pitnacree''))
     = Inl (LookupError ''Malformed response from SEPA (row/header mismatch).'')
   \<and> fst (first_hit (example_net (Json no_hit_reply) InvalidJson InvalidJson)
          (qry_station_name ''Pitnacree''))
     = Inl (LookupError ''No matching records returned by SEPA.'')"
  using first_hit_decoding [of "example_net (Json station_reply) InvalidJson InvalidJson"
          "qry_station_name ''Pitnacree''" station_reply]
        first_hit_decoding [of "example_net (Json short_row_reply) InvalidJson InvalidJson"
          "qry_station_name ''Pitnacree''" short_row_reply]
        first_hit_decoding [of "example_net (Json no_hit_reply) InvalidJson InvalidJson"
          "qry_station_name ''Pitnacree''" no_hit_reply]
  by (simp add: example_net_simps station_reply_def short_row_reply_def no_hit_reply_def
        station_header_def)

text \<open>
  Claim C10. Any LookupError of the query by station name starts the query by river
  name, and the row/header mismatch is such a LookupError: after a mismatching reply
  the second request is made and its outcome is the station lookup's outcome.
\<close>

theorem fallback_on_any_LookupError:
  assumes "date_text date = Inr d"
      and "net (qry_station_name name) = Json body"
      and "decode_first_hit body = Inl (LookupError m)"
  shows "find_station net name
           = (fst (first_hit net (qry_river_name name)),
              [exchange_of Requests net (qry_station_name name) 30,
               exchange_of Requests net (qry_river_name name) 30])
       \<and> take 2 (snd (get_river_level L net session name date parameter resolution))
           = [exchange_of Requests net (qry_station_name name) 30,
              exchange_of Requests net (qry_river_name name) 30]
       \<and> (\<forall>header row rest xs.
            body = JArr (JArr header # row # rest) \<and> elements row = Some xs
              \<and> length xs \<noteq> length header
            \<longrightarrow> m = ''Malformed response from SEPA (row/header mismatch).'')"
proof -
  have fs: "find_station net name
           = (fst (first_hit net (qry_river_name name)),
              [exchange_of Requests net (qry_station_name name) 30,
               exchange_of Requests net (qry_river_name name) 30])"
    using assms(2,3) by (simp add: find_station_eq first_hit_eq)
  have "take 2 (snd (get_river_level L net session name date parameter resolution))
           = [exchange_of Requests net (qry_station_name name) 30,
              exchange_of Requests net (qry_river_name name) 30]"
    using assms(1) fs
    by (simp add: get_river_level_def Let_def split: sum.splits option.splits)
  moreover have "\<forall>header row rest xs.
            body = JArr (JArr header # row # rest) \<and> elements row = Some xs
              \<and> length xs \<noteq> length header
            \<longrightarrow> m = ''Malformed response from SEPA (row/header mismatch).''"
    using assms(3) by (auto simp: decode_mismatch)
  ultimately show ?thesis using fs by simp
qed

theorem fallback_on_any_LookupError_witness:
  "take 2 (snd (get_river_level reference_externals
     (example_net (Json short_row_reply) (Json station_reply) (Json values_reply))
     None ''Pitnacree'' (DateStr ''2024-01-01'') ''SG'' ''15m.Cmd''))
   = [\<lparr>via = Requests, url = qry_station_name ''Pitnacree'', timeout = 30,
        reply = Json short_row_reply\<rparr>,
      \<lparr>via = Requests, url = qry_river_name ''Pitnacree'', timeout = 30,
        reply = Json station_reply\<rparr>]"
  using fallback_on_any_LookupError [OF date_text_example, of
      "example_net (Json short_row_reply) (Json station_reply) (Json values_reply)"
      "''Pitnacree''" short_row_reply
      "''Malformed response from SEPA (row/header mismatch).''"
      reference_externals None "''SG''" "''15m.Cmd''"]
  by (simp add: example_net_simps decode_short_row_reply exchange_of_def)

text \<open>
  Claim C7. An exchange that fails in transport or by its status is the last exchange
  of the call and its exception is the result of the call as it is; a failure of the
  query by station name therefore ends the call after that single request.
\<close>

theorem request_failure_propagates:
  assumes "get_river_level L net session name date parameter resolution = (res, tr)"
  shows "(\<forall>i m. i < length tr \<and> reply (tr ! i) = TransportFailure m
            \<longrightarrow> Suc i = length tr \<and> res = Inl (RequestException m))
       \<and> (\<forall>i c. i < length tr \<and> reply (tr ! i) = BadStatus c
            \<longrightarrow> Suc i = length tr \<and> res = Inl (HTTPError c))
       \<and> (\<forall>d m. date_text date = Inr d \<and> net (qry_station_name name) = TransportFailure m
            \<longrightarrow> tr = [exchange_of Requests net (qry_station_name name) 30]
                \<and> res = Inl (RequestException m))
       \<and> (\<forall>d c. date_text date = Inr d \<and> net (qry_station_name name) = BadStatus c
            \<longrightarrow> tr = [exchange_of Requests net (qry_station_name name) 30]
                \<and> res = Inl (HTTPError c))"
proof -
  have at: "Suc i = length tr \<and> res = Inl e"
    if "i < length tr" and "receive (reply (tr ! i)) = Inl e" for i e
    using get_river_level_trace_failure [OF assms that] .
  have first: "tr = [exchange_of Requests net (qry_station_name name) 30] \<and> res = Inl e"
    if d: "date_text date = Inr d" and e: "receive (net (qry_station_name name)) = Inl e"
    for d e
  proof -
    have "find_station net name
        = (Inl e, [exchange_of Requests net (qry_station_name name) 30])"
      using e receive_not_lookup [of "net (qry_station_name name)" e]
      by (simp add: find_station_eq first_hit_eq)
    with d assms show ?thesis by (simp add: get_river_level_def)
  qed
  show ?thesis
  proof (intro conjI allI impI)
    fix i m assume "i < length tr \<and> reply (tr ! i) = TransportFailure m"
    then show "Suc i = length tr" "res = Inl (RequestException m)"
      using at [of i "RequestException m"] by simp_all
  next
    fix i c assume "i < length tr \<and> reply (tr ! i) = BadStatus c"
    then show "Suc i = length tr" "res = Inl (HTTPError c)"
      using at [of i "HTTPError c"] by simp_all
  next
    fix d m
    assume "date_text date = Inr d \<and> net (qry_station_name name) = TransportFailure m"
    then show "tr = [exchange_of Requests net (qry_station_name name) 30]"
      "res = Inl (RequestException m)"
      using first [of d "RequestException m"] by simp_all
  next
    fix d c
    assume "date_text date = Inr d \<and> net (qry_station_name name) = BadStatus c"
    then show "tr = [exchange_of Requests net (qry_station_name name) 30]"
      "res = Inl (HTTPError c)"
      using first [of d "HTTPError c"] by simp_all
  qed
qed

lemma example_station_failure:
  "get_river_level reference_externals
     (example_net (TransportFailure ''ConnectTimeout'') (Json station_reply) (Json values_reply))
     None ''Pitnacree'' (DateStr ''2024-01-01'') ''SG'' ''15m.Cmd''
   = (Inl (RequestException ''ConnectTimeout''),
      [\<lparr>via = Requests, url = qry_station_name ''Pitnacree'', timeout = 30,
        reply = TransportFailure ''ConnectTimeout''\<rparr>])"
  by (simp add: get_river_level_def date_text_def find_station_eq first_hit_eq
        example_net_simps exchange_of_def)

theorem request_failure_propagates_witness:
  "get_river_level reference_externals
     (example_net (TransportFailure ''ConnectTimeout'') (Json station_reply) (Json values_reply))
     None ''Pitnacree'' (DateStr ''2024-01-01'') ''SG'' ''15m.Cmd''
   = (Inl (RequestException ''ConnectTimeout''),
      [\<lparr>via = Requests, url = qry_station_name ''Pitnacree'', timeout = 30,
        reply = TransportFailure ''ConnectTimeout''\<rparr>])
   \<and> Suc 0 = length [\<lparr>via = Requests, url = qry_station_name ''Pitnacree'', timeout = 30,
        reply = TransportFailure ''ConnectTimeout''\<rparr>]"
  using request_failure_propagates [OF example_station_failure] example_station_failure
  by simp

lemma split_on_nonempty: "split_on sep s \<noteq> []"
  by (induction s) (auto split: list.splits)

lemma DataFrame_error: "DataFrame L d cols = Inl e \<Longrightarrow> \<exists>m. e = PandasError m"
  by (auto simp: DataFrame_def Let_def split: if_splits sum.splits)


lemma DataFrame_empty: "DataFrame L (JArr []) cols = Inr []"
  by (simp add: DataFrame_def)

lemma index_by_timestamp_error:
  "index_by_timestamp L cols rs = Inl e \<Longrightarrow> e = KeyError ''Timestamp'' \<or> (\<exists>m. e = PandasError m)"
  by (auto simp: index_by_timestamp_def Let_def split: if_splits sum.splits)

lemma index_by_timestamp_ok:
  assumes "index_by_timestamp L cols rs = Inr t"
  shows "to_datetime L (map (cell (position ''Timestamp'' cols)) rs) = Inr (tbl_index t)
       \<and> tbl_rows t = map (drop_at (position ''Timestamp'' cols)) rs
       \<and> tbl_columns t = drop_at (position ''Timestamp'' cols) cols"
  using assms by (auto simp: index_by_timestamp_def Let_def split: if_splits sum.splits)

lemma messages_differ: "malformed_values name d \<noteq> no_level_values name d"
  by (simp add: malformed_values_def no_level_values_def)

lemma values_table_malformed:
  "(values_table L name d raw = Inl (LookupError (malformed_values name d)))
   = (\<not> truthy raw \<or> \<not> is_list raw \<or> \<not> is_dict (list_items raw ! 0)
      \<or> ''data'' \<notin> fst ` set (dict_items (list_items raw ! 0)))"
proof (cases "\<not> truthy raw \<or> \<not> is_list raw \<or> \<not> is_dict (list_items raw ! 0)
      \<or> map_of (dict_items (list_items raw ! 0)) ''data'' = None")
  case True
  then show ?thesis by (auto simp: values_table_def map_of_eq_None_iff)
next
  case False
  then have "values_table L name d raw \<noteq> Inl (LookupError (malformed_values name d))"
    using messages_differ [of name d]
    by (auto simp: values_table_def Let_def
             dest!: DataFrame_error index_by_timestamp_error
             split: option.splits json.splits sum.splits if_splits)
  with False show ?thesis by (auto simp: map_of_eq_None_iff)
qed

lemma values_table_ok:
  assumes "values_table L name d raw = Inr t"
  shows "\<exists>rec rest s data rs.
           raw = JArr (JObj rec # rest) \<and> map_of rec ''columns'' = Some (JStr s)
         \<and> map_of rec ''data'' = Some data
         \<and> DataFrame L data (map strip (split_on CHR '','' s)) = Inr rs \<and> rs \<noteq> []
         \<and> index_by_timestamp L (map strip (split_on CHR '','' s)) rs = Inr t"
proof -
  from assms have c: "truthy raw" "is_list raw" "is_dict (list_items raw ! 0)"
    and dd: "map_of (dict_items (list_items raw ! 0)) ''data'' \<noteq> None"
    by (auto simp: values_table_def split: if_splits)
  from c obtain x rest where raw: "raw = JArr (x # rest)"
    by (cases raw; cases "list_items raw") auto
  with c obtain rec where x: "x = JObj rec" by (cases x) auto
  from dd raw x obtain data where data: "map_of rec ''data'' = Some data" by auto
  from assms raw x data obtain s where s: "map_of rec ''columns'' = Some (JStr s)"
    by (auto simp: values_table_def Let_def split: option.splits json.splits)
  from assms raw x data s obtain rs
    where "DataFrame L data (map strip (split_on CHR '','' s)) = Inr rs" "rs \<noteq> []"
      "index_by_timestamp L (map strip (split_on CHR '','' s)) rs = Inr t"
    by (auto simp: values_table_def Let_def split: sum.splits if_splits)
  with raw x data s show ?thesis by blast
qed

lemma get_river_level_ok:
  assumes "get_river_level L net session name date parameter resolution = (Inr t, tr)"
  shows "\<exists>d raw. date_text date = Inr d \<and> tr \<noteq> [] \<and> reply (last tr) = Json raw
           \<and> values_table L name d raw = Inr t"
proof -
  from assms obtain d where d: "date_text date = Inr d"
    by (cases "date_text date") (auto simp: get_river_level_def)
  obtain r tr0 where fs: "find_station net name = (r, tr0)" by (cases "find_station net name")
  with assms d obtain st where st: "r = Inr st"
    by (cases r) (auto simp: get_river_level_def)
  with assms d fs obtain sta_no where sn: "st (KStr ''station_no'') = Some sta_no"
    by (cases "st (KStr ''station_no'')") (auto simp: get_river_level_def)
  let ?u = "qry_values (ts_path L sta_no parameter resolution) d"
  from get_river_level_fetch [OF d fs [unfolded st] sn, of L session parameter resolution] assms
  have res: "(case receive (sess_network net session ?u) of
        Inl e \<Rightarrow> Inl e
      | Inr raw \<Rightarrow> values_table L name d raw) = Inr t"
    and tr: "tr = tr0 @ [exchange_of (sess_channel session) (sess_network net session) ?u 60]"
    by simp_all
  from res obtain raw where "receive (sess_network net session ?u) = Inr raw"
    "values_table L name d raw = Inr t"
    by (cases "receive (sess_network net session ?u)") auto
  moreover from this(1) have "sess_network net session ?u = Json raw"
    by (cases "sess_network net session ?u") auto
  ultimately show ?thesis using d tr by (auto simp: exchange_of_def)
qed

lemma example_find_station:
  "find_station (example_net (Json station_reply) b c) ''Pitnacree''
     = (Inr example_station,
        [\<lparr>via = Requests, url = qry_station_name ''Pitnacree'', timeout = 30,
          reply = Json station_reply\<rparr>])"
  by (simp add: find_station_eq first_hit_eq example_net_simps decode_station_reply
        exchange_of_def)

lemma example_station_no: "example_station (KStr ''station_no'') = Some (JStr ''15018'')"
  by (simp add: example_station_def)

lemma example_values_request:
  "sess_network (example_net a b c) None
     (qry_values (ts_path reference_externals (JStr ''15018'') ''SG'' ''15m.Cmd'') ''2024-01-01'')
   = c"
  using example_net_simps(3) [of a b c]
  by (simp add: sess_network_def example_values_url_def)

text \<open>
  Claim C6. Once the station is found and the values request has answered with a decoded
  body, the call fails with "malformed response fetching values" exactly when that body
  is empty, is not a list, does not start with a dict, or that dict has no
  \<^verbatim>\<open>data\<close> field.
\<close>

theorem malformed_values_response:
  assumes "date_text date = Inr d"
      and "find_station net name = (Inr station, tr0)"
      and "station (KStr ''station_no'') = Some sta_no"
      and "sess_network net session (qry_values (ts_path L sta_no parameter resolution) d)
             = Json raw"
  shows "(fst (get_river_level L net session name date parameter resolution)
            = Inl (LookupError (malformed_values name d)))
       = (\<not> truthy raw \<or> \<not> is_list raw \<or> \<not> is_dict (list_items raw ! 0)
          \<or> ''data'' \<notin> fst ` set (dict_items (list_items raw ! 0)))"
  using get_river_level_fetch [OF assms(1-3), of L session parameter resolution] assms(4)
  by (simp add: values_table_malformed)

theorem malformed_values_response_witness:
  "fst (get_river_level reference_externals
          (example_net (Json station_reply) InvalidJson (Json no_data_reply))
          None ''Pitnacree'' (DateStr ''2024-01-01'') ''SG'' ''15m.Cmd'')
   = Inl (LookupError ''Malformed response fetching values for Pitnacree on 2024-01-01.'')"
proof -
  let ?net = "example_net (Json station_reply) InvalidJson (Json no_data_reply)"
  have fs: "find_station ?net ''Pitnacree''
     = (Inr example_station,
        [\<lparr>via = Requests, url = qry_station_name ''Pitnacree'', timeout = 30,
          reply = Json station_reply\<rparr>])"
    by (rule example_find_station)
  have v: "sess_network ?net None
     (qry_values (ts_path reference_externals (JStr ''15018'') ''SG'' ''15m.Cmd'') ''2024-01-01'')
     = Json no_data_reply"
    by (rule example_values_request)
  from malformed_values_response [OF date_text_example fs example_station_no v]
  show ?thesis by (simp add: no_data_reply_def malformed_values_def)
qed

text \<open>
  Claim C9. A values body that passes the structural check, a non-empty list whose first
  element is a dict with a \<^verbatim>\<open>data\<close> field, raises KeyError when that dict has no
  \<^verbatim>\<open>columns\<close> field and AttributeError when the field is not a str; neither is the
  "malformed response" failure.
\<close>

theorem columns_field_unchecked:
  assumes "date_text date = Inr d"
      and "find_station net name = (Inr station, tr0)"
      and "station (KStr ''station_no'') = Some sta_no"
      and "sess_network net session (qry_values (ts_path L sta_no parameter resolution) d)
             = Json (JArr (JObj rec # rest))"
      and "map_of rec ''data'' = Some dv"
  shows "(map_of rec ''columns'' = None
            \<longrightarrow> fst (get_river_level L net session name date parameter resolution)
                  = Inl (KeyError ''columns''))
       \<and> (\<forall>c. map_of rec ''columns'' = Some c \<and> (\<forall>s. c \<noteq> JStr s)
            \<longrightarrow> fst (get_river_level L net session name date parameter resolution)
                  = Inl AttributeError)"
proof -
  have res: "fst (get_river_level L net session name date parameter resolution)
      = values_table L name d (JArr (JObj rec # rest))"
    using get_river_level_fetch [OF assms(1-3), of L session parameter resolution] assms(4)
    by simp
  have "values_table L name d (JArr (JObj rec # rest)) = Inl (KeyError ''columns'')"
    if "map_of rec ''columns'' = None"
    using that assms(5) by (simp add: values_table_def)
  moreover have "values_table L name d (JArr (JObj rec # rest)) = Inl AttributeError"
    if "map_of rec ''columns'' = Some c" and "\<forall>s. c \<noteq> JStr s" for c
    using that assms(5) by (cases c) (simp_all add: values_table_def)
  ultimately show ?thesis using res by simp
qed

theorem columns_field_unchecked_witness:
  "fst (get_river_level reference_externals
          (example_net (Json station_reply) InvalidJson (Json no_columns_reply))
          None ''Pitnacree'' (DateStr ''2024-01-01'') ''SG'' ''15m.Cmd'')
   = Inl (KeyError ''columns'')
   \<and> fst (get_river_level reference_externals
          (example_net (Json station_reply) InvalidJson
             (Json (JArr [JObj [(''columns'', JNull), (''data'', JArr [])]])))
          None ''Pitnacree'' (DateStr ''2024-01-01'') ''SG'' ''15m.Cmd'')
   = Inl AttributeError"
proof -
  let ?n1 = "example_net (Json station_reply) InvalidJson (Json no_columns_reply)"
  let ?n2 = "example_net (Json station_reply) InvalidJson
             (Json (JArr [JObj [(''columns'', JNull), (''data'', JArr [])]]))"
  have fs1: "find_station ?n1 ''Pitnacree''
     = (Inr example_station,
        [\<lparr>via = Requests, url = qry_station_name ''Pitnacree'', timeout = 30,
          reply = Json station_reply\<rparr>])"
    by (rule example_find_station)
  have fs2: "find_station ?n2 ''Pitnacree''
     = (Inr example_station,
        [\<lparr>via = Requests, url = qry_station_name ''Pitnacree'', timeout = 30,
          reply = Json station_reply\<rparr>])"
    by (rule example_find_station)
  have v1: "sess_network ?n1 None
     (qry_values (ts_path reference_externals (JStr ''15018'') ''SG'' ''15m.Cmd'') ''2024-01-01'')
     = Json (JArr (JObj [(''data'', JArr [])] # []))"
    using example_values_request [of "Json station_reply" InvalidJson "Json no_columns_reply"]
    by (simp add: no_columns_reply_def)
  have v2: "sess_network ?n2 None
     (qry_values (ts_path reference_externals (JStr ''15018'') ''SG'' ''15m.Cmd'') ''2024-01-01'')
     = Json (JArr (JObj [(''columns'', JNull), (''data'', JArr [])] # []))"
    by (rule example_values_request)
  have d1: "map_of [(''data'', JArr [])] ''data'' = Some (JArr [])" by simp
  have d2: "map_of [(''columns'', JNull), (''data'', JArr [])] ''data'' = Some (JArr [])"
    by simp
  from columns_field_unchecked [OF date_text_example fs1 example_station_no v1 d1]
       columns_field_unchecked [OF date_text_example fs2 example_station_no v2 d2]
  show ?thesis by simp
qed

text \<open>
  Claim C3, as amended. A table that is returned has at least one row; and when the
  \<^verbatim>\<open>data\<close> array of the values response is empty the call returns no table: it
  fails, and with "no level values found" whenever the record carries its
  \<^verbatim>\<open>columns\<close> string.
\<close>

theorem never_an_empty_table:
  "(\<forall>t tr. get_river_level L net session name date parameter resolution = (Inr t, tr)
      \<longrightarrow> tbl_rows t \<noteq> [])
 \<and> (\<forall>d station tr0 sta_no rec rest.
      date_text date = Inr d \<and> find_station net name = (Inr station, tr0)
      \<and> station (KStr ''station_no'') = Some sta_no
      \<and> sess_network net session (qry_values (ts_path L sta_no parameter resolution) d)
          = Json (JArr (JObj rec # rest))
      \<and> map_of rec ''data'' = Some (JArr [])
      \<longrightarrow> (\<forall>t. fst (get_river_level L net session name date parameter resolution) \<noteq> Inr t)
        \<and> (\<forall>s. map_of rec ''columns'' = Some (JStr s)
              \<longrightarrow> fst (get_river_level L net session name date parameter resolution)
                    = Inl (LookupError (no_level_values name d))))"
proof (intro conjI allI impI)
  fix t tr
  assume "get_river_level L net session name date parameter resolution = (Inr t, tr)"
  then obtain d raw where "values_table L name d raw = Inr t"
    using get_river_level_ok by blast
  then obtain s rs where "rs \<noteq> []"
    "index_by_timestamp L (map strip (split_on CHR '','' s)) rs = Inr t"
    using values_table_ok by blast
  then show "tbl_rows t \<noteq> []"
    using index_by_timestamp_ok [of L "map strip (split_on CHR '','' s)" rs t] by simp
next
  fix d station tr0 sta_no rec rest
  assume h: "date_text date = Inr d \<and> find_station net name = (Inr station, tr0)
      \<and> station (KStr ''station_no'') = Some sta_no
      \<and> sess_network net session (qry_values (ts_path L sta_no parameter resolution) d)
          = Json (JArr (JObj rec # rest))
      \<and> map_of rec ''data'' = Some (JArr [])"
  then have res: "fst (get_river_level L net session name date parameter resolution)
      = values_table L name d (JArr (JObj rec # rest))"
    using get_river_level_fetch [of date d net name station tr0 sta_no L session
            parameter resolution]
    by simp
  have nodata: "values_table L name d (JArr (JObj rec # rest))
      = Inl (LookupError (no_level_values name d))"
    if "map_of rec ''columns'' = Some (JStr s)" for s
    using that h by (simp add: values_table_def DataFrame_empty)
  {
    fix t
    show "fst (get_river_level L net session name date parameter resolution) \<noteq> Inr t"
    proof
      assume "fst (get_river_level L net session name date parameter resolution) = Inr t"
      with res have "values_table L name d (JArr (JObj rec # rest)) = Inr t" by simp
      from values_table_ok [OF this] obtain s where "map_of rec ''columns'' = Some (JStr s)"
        by auto
      from nodata [OF this] \<open>values_table L name d (JArr (JObj rec # rest)) = Inr t\<close>
      show False by simp
    qed
  }
  {
    fix s
    assume "map_of rec ''columns'' = Some (JStr s)"
    from nodata [OF this] res
    show "fst (get_river_level L net session name date parameter resolution)
                    = Inl (LookupError (no_level_values name d))"
      by simp
  }
qed

theorem never_an_empty_table_witness:
  "fst (get_river_level reference_externals
          (example_net (Json station_reply) InvalidJson (Json empty_values_reply))
          None ''Pitnacree'' (DateStr ''2024-01-01'') ''SG'' ''15m.Cmd'')
   = Inl (LookupError ''No level values found for Pitnacree on 2024-01-01.'')"
proof -
  let ?net = "example_net (Json station_reply) InvalidJson (Json empty_values_reply)"
  have fs: "find_station ?net ''Pitnacree''
     = (Inr example_station,
        [\<lparr>via = Requests, url = qry_station_name ''Pitnacree'', timeout = 30,
          reply = Json station_reply\<rparr>])"
    by (rule example_find_station)
  have v: "sess_network ?net None
     (qry_values (ts_path reference_externals (JStr ''15018'') ''SG'' ''15m.Cmd'') ''2024-01-01'')
     = Json (JArr (JObj [(''columns'', JStr ''Timestamp,Value,Quality Code''),
                         (''data'', JArr [])] # []))"
    using example_values_request [of "Json station_reply" InvalidJson "Json empty_values_reply"]
    by (simp add: empty_values_reply_def)
  have d: "map_of [(''columns'', JStr ''Timestamp,Value,Quality Code''), (''data'', JArr [])]
             ''data'' = Some (JArr [])"
    by simp
  have c: "map_of [(''columns'', JStr ''Timestamp,Value,Quality Code''), (''data'', JArr [])]
             ''columns'' = Some (JStr ''Timestamp,Value,Quality Code'')"
    by simp
  from never_an_empty_table [of reference_externals ?net None "''Pitnacree''"
         "DateStr ''2024-01-01''" "''SG''" "''15m.Cmd''"]
  have "fst (get_river_level reference_externals ?net None ''Pitnacree''
               (DateStr ''2024-01-01'') ''SG'' ''15m.Cmd'')
        = Inl (LookupError (no_level_values ''Pitnacree'' ''2024-01-01''))"
    using date_text_example fs example_station_no v d c by blast
  then show ?thesis by (simp add: no_level_values_def)
qed




lemma example_call:
  "get_river_level reference_externals
     (example_net (Json station_reply) InvalidJson (Json raw))
     None ''Pitnacree'' (DateStr ''2024-01-01'') ''SG'' ''15m.Cmd''
   = (values_table reference_externals ''Pitnacree'' ''2024-01-01'' raw,
      [\<lparr>via = Requests, url = qry_station_name ''Pitnacree'', timeout = 30,
        reply = Json station_reply\<rparr>,
       \<lparr>via = Requests, url = example_values_url, timeout = 60, reply = Json raw\<rparr>])"
proof -
  let ?net = "example_net (Json station_reply) InvalidJson (Json raw)"
  have fs: "find_station ?net ''Pitnacree''
     = (Inr example_station,
        [\<lparr>via = Requests, url = qry_station_name ''Pitnacree'', timeout = 30,
          reply = Json station_reply\<rparr>])"
    by (rule example_find_station)
  from get_river_level_fetch [OF date_text_example fs example_station_no,
         of reference_externals None "''SG''" "''15m.Cmd''"]
  show ?thesis
    by (simp add: example_net_simps sess_network_def exchange_of_def sess_channel_def
          example_values_url_def [symmetric])
qed

text \<open>
  Claim C3, as stated, fails on a values response whose \<^verbatim>\<open>data\<close> array is empty and
  whose record has no \<^verbatim>\<open>columns\<close> field: line 128 raises KeyError before the frame
  is built, so the failure is not "no level values found".
\<close>

theorem empty_data_without_columns_counterexample:
  "map_of (dict_items (list_items no_columns_reply ! 0)) ''data'' = Some (JArr [])
   \<and> fst (get_river_level reference_externals
          (example_net (Json station_reply) InvalidJson (Json no_columns_reply))
          None ''Pitnacree'' (DateStr ''2024-01-01'') ''SG'' ''15m.Cmd'')
     = Inl (KeyError ''columns'')"
  by (simp add: example_call values_table_def no_columns_reply_def)






end
